theory Spec2Isabelle
  imports Main "HOL-Library.Sublist"
begin

section \<open>Data model of the argument clinic\<close>

text \<open>
  The conversation state lives in \<^verbatim>\<open>services/argument_clinic_graph.py\<close>; the
  per-session driver in \<^verbatim>\<open>routes/websocket.py\<close>. Python's unbounded integers
  are \<open>int\<close>, \<^verbatim>\<open>str | None\<close> is \<open>string option\<close>.
\<close>

datatype UserIntent = ARGUMENTATIVE | TRANSACTIONAL | META | CONFUSED

text \<open>The message objects kept for the arguer agent are opaque to the state machine.\<close>

datatype ModelMessage = ModelMessage string

record ArgumentClinicContext =
  session_id :: string
  conversation_history :: "string list"
  turn_count :: int
  last_response :: string
  user_frustration_level :: int
  payment_received :: bool
  current_input :: "string option"
  arguer_messages :: "ModelMessage list"

text \<open>The dataclass defaults: every field but \<open>session_id\<close> has one.\<close>

definition ArgumentClinicContext_init :: "string \<Rightarrow> ArgumentClinicContext" where
  "ArgumentClinicContext_init sid =
     \<lparr>session_id = sid, conversation_history = [], turn_count = 0, last_response = [],
      user_frustration_level = 0, payment_received = False, current_input = None,
      arguer_messages = []\<rparr>"

text \<open>The node classes of the graph; a node object carries no data of its own.\<close>

datatype node =
    EntryNode
  | WaitForInput
  | ProcessUserInput
  | SimpleContradictionNode
  | ArgumentationNode
  | MetaCommentaryNode
  | ResolutionNode

text \<open>\<^verbatim>\<open>type(node).__name__\<close>\<close>

fun node_name :: "node \<Rightarrow> string" where
  "node_name EntryNode = ''EntryNode''"
| "node_name WaitForInput = ''WaitForInput''"
| "node_name ProcessUserInput = ''ProcessUserInput''"
| "node_name SimpleContradictionNode = ''SimpleContradictionNode''"
| "node_name ArgumentationNode = ''ArgumentationNode''"
| "node_name MetaCommentaryNode = ''MetaCommentaryNode''"
| "node_name ResolutionNode = ''ResolutionNode''"

text \<open>
  Exceptions are values. \<open>RuntimeError\<close> is the one the source raises itself,
  \<open>AttributeError\<close> is what Python raises on \<^verbatim>\<open>None.lower()\<close> and on a method call
  on \<^verbatim>\<open>None\<close>, \<open>CollaboratorError\<close> stands for whatever an agent call raises.
\<close>

datatype exn = RuntimeError string | AttributeError string | CollaboratorError string

section \<open>External collaborators\<close>

text \<open>
  The three agents are calls to a language model. Each is a function of its arguments and
  of an external world \<open>'w\<close>, which it may change, so that two calls with the same
  arguments may answer differently; each either raises (\<open>Inl\<close>) or returns (\<open>Inr\<close>).
  The prompts are f-strings in the source; the model hands the agents the values the
  f-string is built from: the intention agent gets the input text and the recent history,
  the arguer gets the node whose template is used, the inferred intention and the input.
\<close>

datatype prompt = Prompt node UserIntent string

record 'w collaborators =
  intention_agent :: "string \<Rightarrow> string list \<Rightarrow> 'w \<Rightarrow> (exn + UserIntent) \<times> 'w"
  payment_agent :: "string \<Rightarrow> 'w \<Rightarrow> (exn + bool) \<times> 'w"
  arguer_agent ::
    "prompt \<Rightarrow> ModelMessage list \<Rightarrow> 'w \<Rightarrow> (exn + string \<times> ModelMessage list) \<times> 'w"

definition did_user_pay :: "'w collaborators \<Rightarrow> string \<Rightarrow> 'w \<Rightarrow> (exn + bool) \<times> 'w" where
  "did_user_pay env user_input w = payment_agent env user_input w"

text \<open>
  \<^verbatim>\<open>conversation_history[-3:] if len(conversation_history) > 3 else conversation_history\<close>
\<close>

definition infer_user_intention ::
  "'w collaborators \<Rightarrow> string \<Rightarrow> string list \<Rightarrow> 'w \<Rightarrow> (exn + UserIntent) \<times> 'w" where
  "infer_user_intention env user_input history w =
     intention_agent env user_input
       (if length history > 3 then drop (length history - 3) history else history) w"

section \<open>String helpers\<close>

text \<open>
  \<^verbatim>\<open>str.lower()\<close> on the ASCII letters, and the substring test \<^verbatim>\<open>p in s\<close>.
\<close>

definition lower_char :: "char \<Rightarrow> char" where
  "lower_char c =
     (let n = (of_char c :: nat) in if 65 \<le> n \<and> n \<le> 90 then char_of (n + 32) else c)"

definition lower :: "string \<Rightarrow> string" where
  "lower s = map lower_char s"

fun contains :: "string \<Rightarrow> string \<Rightarrow> bool" where
  "contains p [] = (p = [])"
| "contains p (c # cs) = (prefix p (c # cs) \<or> contains p cs)"

section \<open>The nodes\<close>

text \<open>
  A node's \<open>run\<close> mutates the shared context in place and returns the next node. The model
  returns the outcome together with the context and the world as they are when the call
  ends; when the call raises, the mutations made before the raise are still there.
\<close>

type_synonym 'w run_result = "(exn + node) \<times> ArgumentClinicContext \<times> 'w"

definition greeting :: string where
  "greeting = ''Good morning! Welcome to the Argument Clinic. How may I help you today?''"

definition EntryNode_run :: "'w collaborators \<Rightarrow> ArgumentClinicContext \<Rightarrow> 'w \<Rightarrow> 'w run_result" where
  "EntryNode_run env ctx w = (Inr WaitForInput, ctx\<lparr>last_response := greeting\<rparr>, w)"

definition WaitForInput_run :: "'w collaborators \<Rightarrow> ArgumentClinicContext \<Rightarrow> 'w \<Rightarrow> 'w run_result" where
  "WaitForInput_run env ctx w =
     (case current_input ctx of
        None \<Rightarrow> (Inl (RuntimeError ''No input provided to WaitForInput node''), ctx, w)
      | Some user_input \<Rightarrow>
          (Inr ProcessUserInput,
           ctx\<lparr>conversation_history := conversation_history ctx @ [user_input]\<rparr>, w))"

text \<open>
  \<open>ProcessUserInput\<close> reads \<open>current_input\<close> without a default: the f-string of the
  intention prompt prints \<^verbatim>\<open>None\<close> as the text \<^verbatim>\<open>None\<close>, and \<^verbatim>\<open>user_input.lower()\<close>
  raises on \<^verbatim>\<open>None\<close> when the META test gets that far.
\<close>

definition ProcessUserInput_run ::
  "'w collaborators \<Rightarrow> ArgumentClinicContext \<Rightarrow> 'w \<Rightarrow> 'w run_result" where
  "ProcessUserInput_run env ctx w =
     (let user_input = current_input ctx in
      case infer_user_intention env (case user_input of None \<Rightarrow> ''None'' | Some u \<Rightarrow> u)
             (conversation_history ctx) w of
        (Inl e, w1) \<Rightarrow> (Inl e, ctx, w1)
      | (Inr user_intention, w1) \<Rightarrow>
          if turn_count ctx \<ge> 8 then (Inr ResolutionNode, ctx, w1)
          else
            (case (if user_intention = META
                   then (case user_input of
                           None \<Rightarrow> Inl (AttributeError ''lower'')
                         | Some u \<Rightarrow> Inr (contains ''argument'' (lower u)))
                   else Inr False) of
               Inl e \<Rightarrow> (Inl e, ctx, w1)
             | Inr True \<Rightarrow> (Inr MetaCommentaryNode, ctx, w1)
             | Inr False \<Rightarrow>
                 if user_intention = ARGUMENTATIVE then
                   (let ctx1 = ctx\<lparr>user_frustration_level := user_frustration_level ctx + 1\<rparr> in
                    if turn_count ctx1 \<ge> 3 \<and> user_frustration_level ctx1 \<ge> 3
                    then (Inr ArgumentationNode, ctx1, w1)
                    else (Inr SimpleContradictionNode, ctx1, w1))
                 else (Inr SimpleContradictionNode, ctx, w1)))"

text \<open>
  The three response nodes differ only in the prompt template; the source repeats the
  body, the model shares it. \<^verbatim>\<open>ctx.state.current_input or ""\<close> turns \<^verbatim>\<open>None\<close> into
  the empty string.
\<close>

definition respond ::
  "node \<Rightarrow> 'w collaborators \<Rightarrow> ArgumentClinicContext \<Rightarrow> 'w \<Rightarrow> 'w run_result" where
  "respond template env ctx w =
     (let user_input = (case current_input ctx of None \<Rightarrow> [] | Some u \<Rightarrow> u) in
      case infer_user_intention env user_input (conversation_history ctx) w of
        (Inl e, w1) \<Rightarrow> (Inl e, ctx, w1)
      | (Inr user_intention, w1) \<Rightarrow>
          (case arguer_agent env (Prompt template user_intention user_input)
                  (arguer_messages ctx) w1 of
             (Inl e, w2) \<Rightarrow> (Inl e, ctx, w2)
           | (Inr (data, new_messages), w2) \<Rightarrow>
               (Inr WaitForInput,
                ctx\<lparr>arguer_messages := arguer_messages ctx @ new_messages,
                    last_response := data,
                    turn_count := turn_count ctx + 1\<rparr>,
                w2)))"

definition SimpleContradictionNode_run ::
  "'w collaborators \<Rightarrow> ArgumentClinicContext \<Rightarrow> 'w \<Rightarrow> 'w run_result" where
  "SimpleContradictionNode_run = respond SimpleContradictionNode"

definition ArgumentationNode_run ::
  "'w collaborators \<Rightarrow> ArgumentClinicContext \<Rightarrow> 'w \<Rightarrow> 'w run_result" where
  "ArgumentationNode_run = respond ArgumentationNode"

definition MetaCommentaryNode_run ::
  "'w collaborators \<Rightarrow> ArgumentClinicContext \<Rightarrow> 'w \<Rightarrow> 'w run_result" where
  "MetaCommentaryNode_run = respond MetaCommentaryNode"

text \<open>The refusal texts of the Resolution node, in the order of the source.\<close>

definition responses :: "string list" where
  "responses =
     [''I'm sorry, but I can't continue without payment. That's five pounds for the argument.'',
      ''No, no, no! Five pounds first, then we can argue!'',
      ''I'm afraid the argument stops here until you pay the five pounds.'',
      ''Payment first! Five pounds, please. Then we can resume our disagreement.'',
      ''I won't argue with you until you've paid! Five pounds!'']"

definition acceptance :: string where
  "acceptance = ''Ah, thank you! Right, where were we? Oh yes, you were wrong about everything!''"

definition ding :: string where
  "ding = ''*DING!* I'm sorry, your time is up! That'll be five pounds please.''"

text \<open>
  The \<^verbatim>\<open>if / elif / else\<close> of the payment logic, on the two Booleans it tests.
\<close>

datatype resolution_branch = Refuse | Accept | Fallback

definition resolution_branch :: "bool \<Rightarrow> bool \<Rightarrow> resolution_branch" where
  "resolution_branch paid payment_detected =
     (if \<not> paid \<and> \<not> payment_detected then Refuse
      else if payment_detected \<or> paid then Accept
      else Fallback)"

text \<open>
  The payment detector is asked only when the intention is TRANSACTIONAL; otherwise
  \<open>payment_detected\<close> keeps its initial value \<open>False\<close>.
\<close>

definition detect_payment ::
  "'w collaborators \<Rightarrow> UserIntent \<Rightarrow> string \<Rightarrow> 'w \<Rightarrow> (exn + bool) \<times> 'w" where
  "detect_payment env user_intention user_input w =
     (if user_intention = TRANSACTIONAL then did_user_pay env user_input w else (Inr False, w))"

definition ResolutionNode_run ::
  "'w collaborators \<Rightarrow> ArgumentClinicContext \<Rightarrow> 'w \<Rightarrow> 'w run_result" where
  "ResolutionNode_run env ctx w =
     (let user_input = (case current_input ctx of None \<Rightarrow> [] | Some u \<Rightarrow> u) in
      case infer_user_intention env user_input (conversation_history ctx) w of
        (Inl e, w1) \<Rightarrow> (Inl e, ctx, w1)
      | (Inr user_intention, w1) \<Rightarrow>
          (case detect_payment env user_intention user_input w1 of
             (Inl e, w2) \<Rightarrow> (Inl e, ctx, w2)
           | (Inr payment_detected, w2) \<Rightarrow>
               (case resolution_branch (payment_received ctx) payment_detected of
                  Refuse \<Rightarrow>
                    (Inr WaitForInput,
                     ctx\<lparr>last_response :=
                           responses ! (length (conversation_history ctx) mod length responses)\<rparr>,
                     w2)
                | Accept \<Rightarrow>
                    (Inr SimpleContradictionNode,
                     ctx\<lparr>payment_received := True,
                         last_response := acceptance,
                         turn_count := 0,
                         user_frustration_level := 0\<rparr>,
                     w2)
                | Fallback \<Rightarrow> (Inr WaitForInput, ctx\<lparr>last_response := ding\<rparr>, w2))))"

fun run_node :: "node \<Rightarrow> 'w collaborators \<Rightarrow> ArgumentClinicContext \<Rightarrow> 'w \<Rightarrow> 'w run_result" where
  "run_node EntryNode = EntryNode_run"
| "run_node WaitForInput = WaitForInput_run"
| "run_node ProcessUserInput = ProcessUserInput_run"
| "run_node SimpleContradictionNode = SimpleContradictionNode_run"
| "run_node ArgumentationNode = ArgumentationNode_run"
| "run_node MetaCommentaryNode = MetaCommentaryNode_run"
| "run_node ResolutionNode = ResolutionNode_run"

section \<open>The graph run and the session\<close>

text \<open>
  \<open>GraphSession\<close> of \<^verbatim>\<open>routes/websocket.py\<close>. \<^verbatim>\<open>self.state\<close> and the state of the
  graph run are one object, so the record holds it once; \<open>graph_context\<close> is \<open>None\<close>
  until the graph is started and then holds the node the run will execute next. The
  creation timestamp, the elapsed time in the result and the global metric counters are
  left out.
\<close>

record GraphSession =
  gs_session_id :: string
  state :: ArgumentClinicContext
  graph_context :: "node option"
  is_processing :: bool

definition GraphSession_init :: "string \<Rightarrow> GraphSession" where
  "GraphSession_init sid =
     \<lparr>gs_session_id = sid, state = ArgumentClinicContext_init sid, graph_context = None,
      is_processing = False\<rparr>"

type_synonym ('a, 'w) session_result = "(exn + 'a) \<times> GraphSession \<times> 'w"

text \<open>
  \<^verbatim>\<open>await self.graph_context.next()\<close> of the graph library: run the pending node on the
  shared state, make the node it returns the pending one, and return it. When the node
  raises, the exception passes through and the pending node stays.
\<close>

definition graph_next :: "'w collaborators \<Rightarrow> GraphSession \<Rightarrow> 'w \<Rightarrow> (node, 'w) session_result" where
  "graph_next env s w =
     (case graph_context s of
        None \<Rightarrow> (Inl (AttributeError ''next''), s, w)
      | Some n \<Rightarrow>
          (case run_node n env (state s) w of
             (Inl e, ctx, w1) \<Rightarrow> (Inl e, s\<lparr>state := ctx\<rparr>, w1)
           | (Inr n1, ctx, w1) \<Rightarrow> (Inr n1, s\<lparr>state := ctx, graph_context := Some n1\<rparr>, w1)))"

definition start_graph :: "'w collaborators \<Rightarrow> GraphSession \<Rightarrow> 'w \<Rightarrow> (unit, 'w) session_result" where
  "start_graph env s w =
     (if graph_context s = None then
        (case graph_next env (s\<lparr>graph_context := Some EntryNode\<rparr>) w of
           (Inl e, s1, w1) \<Rightarrow> (Inl e, s1, w1)
         | (Inr _, s1, w1) \<Rightarrow> (Inr (), s1, w1))
      else (Inr (), s, w))"

text \<open>The body of the \<^verbatim>\<open>try\<close> block of \<open>process_input\<close>, after the flag is set.\<close>

definition process_input_body ::
  "'w collaborators \<Rightarrow> string \<Rightarrow> GraphSession \<Rightarrow> 'w \<Rightarrow> (string \<times> string, 'w) session_result" where
  "process_input_body env user_input s w =
     (case (if graph_context s = None then start_graph env s w else (Inr (), s, w)) of
        (Inl e, s1, w1) \<Rightarrow> (Inl e, s1, w1)
      | (Inr _, s1, w1) \<Rightarrow>
          (case graph_next env (s1\<lparr>state := (state s1)\<lparr>current_input := Some user_input\<rparr>\<rparr>) w1 of
             (Inl e, s2, w2) \<Rightarrow> (Inl e, s2, w2)
           | (Inr _, s2, w2) \<Rightarrow>
               (case graph_next env s2 w2 of
                  (Inl e, s3, w3) \<Rightarrow> (Inl e, s3, w3)
                | (Inr current_node, s3, w3) \<Rightarrow>
                    (case graph_next env s3 w3 of
                       (Inl e, s4, w4) \<Rightarrow> (Inl e, s4, w4)
                     | (Inr _, s4, w4) \<Rightarrow>
                         (Inr (if last_response (state s4) = []
                               then ''Good morning! Welcome to the Argument Clinic.''
                               else last_response (state s4),
                               node_name current_node),
                          s4, w4)))))"

definition rejection :: "string \<times> string" where
  "rejection = (''Please wait for the current response to complete.'', ''ConcurrencyError'')"

text \<open>
  \<open>process_input\<close>: the concurrency guard returns before the \<^verbatim>\<open>try\<close>, so the
  \<^verbatim>\<open>finally\<close> that clears the flag runs on every other path, raise or return.
\<close>

definition process_input ::
  "'w collaborators \<Rightarrow> string \<Rightarrow> GraphSession \<Rightarrow> 'w \<Rightarrow> (string \<times> string, 'w) session_result" where
  "process_input env user_input s w =
     (if is_processing s then (Inr rejection, s, w)
      else
        (case process_input_body env user_input (s\<lparr>is_processing := True\<rparr>) w of
           (r, s1, w1) \<Rightarrow> (r, s1\<lparr>is_processing := False\<rparr>, w1)))"

text \<open>A session's life after creation: inputs processed one after the other; a raise
  is reported to the user by the handler and the next input is processed.\<close>

fun process_inputs :: "'w collaborators \<Rightarrow> string list \<Rightarrow> GraphSession \<Rightarrow> 'w \<Rightarrow> GraphSession \<times> 'w" where
  "process_inputs env [] s w = (s, w)"
| "process_inputs env (u # us) s w =
     (case process_input env u s w of (r, s1, w1) \<Rightarrow> process_inputs env us s1 w1)"

section \<open>Sample collaborators\<close>

text \<open>
  Collaborators for concrete runs. The world is the number of agent calls made so far.
  \<open>scripted\<close> answers every call with fixed outcomes; \<open>clerk\<close> classifies the one
  input \<open>Here's 5 pounds\<close> as TRANSACTIONAL and everything else as ARGUMENTATIVE, and
  its payment detector says yes.
\<close>

definition scripted ::
  "(exn + UserIntent) \<Rightarrow> (exn + bool) \<Rightarrow> (exn + string \<times> ModelMessage list) \<Rightarrow> nat collaborators" where
  "scripted i p a =
     \<lparr>intention_agent = (\<lambda>u h w. (i, Suc w)),
      payment_agent = (\<lambda>u w. (p, Suc w)),
      arguer_agent = (\<lambda>q ms w. (a, Suc w))\<rparr>"

definition clerk :: "nat collaborators" where
  "clerk =
     \<lparr>intention_agent =
        (\<lambda>u h w. (Inr (if u = ''Here's 5 pounds'' then TRANSACTIONAL else ARGUMENTATIVE), Suc w)),
      payment_agent = (\<lambda>u w. (Inr True, Suc w)),
      arguer_agent = (\<lambda>q ms w. (Inr (''No it isn't!'', []), Suc w))\<rparr>"

text \<open>A session that has answered eight inputs, waiting for the ninth.\<close>

definition eight_turns :: GraphSession where
  "eight_turns =
     \<lparr>gs_session_id = ''s'',
      state = \<lparr>session_id = ''s'',
               conversation_history = replicate 8 ''Yes it is!'',
               turn_count = 8,
               last_response = ''No it isn't!'',
               user_frustration_level = 8,
               payment_received = False,
               current_input = Some ''Yes it is!'',
               arguer_messages = []\<rparr>,
      graph_context = Some WaitForInput,
      is_processing = False\<rparr>"

text \<open>Collaborators whose response generator is down, and a session that has paid.\<close>

definition generator_down :: "nat collaborators" where
  "generator_down =
     scripted (Inr ARGUMENTATIVE) (Inr False) (Inl (CollaboratorError ''model unavailable''))"

definition paid_session :: GraphSession where
  "paid_session = eight_turns\<lparr>state := (state eight_turns)\<lparr>payment_received := True\<rparr>\<rparr>"

section \<open>Routing\<close>

lemma eight_turns_reachable:
  "process_inputs clerk (replicate 8 ''Yes it is!'') (GraphSession_init ''s'') 0 = (eight_turns, 24)"
  by code_simp

text \<open>
  Claim C1. When \<open>ProcessUserInput\<close> evaluates the routing with \<open>turn_count\<close> at least 8,
  the node it returns is \<open>ResolutionNode\<close>, whatever intention the classifier returned
  and whatever the input text is; the context is left as it was.
\<close>

theorem turn_count_ge_8_routes_to_Resolution:
  assumes "turn_count ctx \<ge> 8"
    and "infer_user_intention env (case current_input ctx of None \<Rightarrow> ''None'' | Some u \<Rightarrow> u)
           (conversation_history ctx) w = (Inr user_intention, w1)"
  shows "ProcessUserInput_run env ctx w = (Inr ResolutionNode, ctx, w1)"
  using assms by (simp add: ProcessUserInput_run_def)

theorem turn_count_ge_8_routes_to_Resolution_witness:
  "turn_count (state eight_turns) \<ge> 8 \<and>
   ProcessUserInput_run (scripted (Inr META) (Inr False) (Inr (''No it isn't!'', [])))
     (state eight_turns\<lparr>current_input := Some ''This is not an argument''\<rparr>) 0
   = (Inr ResolutionNode, state eight_turns\<lparr>current_input := Some ''This is not an argument''\<rparr>, 1)"
proof
  show "turn_count (state eight_turns) \<ge> 8"
    by (simp add: eight_turns_def)
  show "ProcessUserInput_run (scripted (Inr META) (Inr False) (Inr (''No it isn't!'', [])))
     (state eight_turns\<lparr>current_input := Some ''This is not an argument''\<rparr>) 0
   = (Inr ResolutionNode, state eight_turns\<lparr>current_input := Some ''This is not an argument''\<rparr>, 1)"
    by (rule turn_count_ge_8_routes_to_Resolution)
       (simp_all add: eight_turns_def infer_user_intention_def scripted_def)
qed

text \<open>
  Claim C2. With \<open>turn_count\<close> below 8 and the intention ARGUMENTATIVE (so the META branch
  does not apply), \<open>ProcessUserInput\<close> adds exactly 1 to \<open>user_frustration_level\<close>, changes
  nothing else, and returns \<open>ArgumentationNode\<close> exactly when \<open>turn_count\<close> is at least 3
  and the incremented frustration level is at least 3, and \<open>SimpleContradictionNode\<close>
  otherwise.
\<close>

theorem argumentative_routing:
  assumes "turn_count ctx < 8"
    and "infer_user_intention env (case current_input ctx of None \<Rightarrow> ''None'' | Some u \<Rightarrow> u)
           (conversation_history ctx) w = (Inr ARGUMENTATIVE, w1)"
  shows "ProcessUserInput_run env ctx w =
           (Inr (if turn_count ctx \<ge> 3 \<and> user_frustration_level ctx + 1 \<ge> 3
                 then ArgumentationNode else SimpleContradictionNode),
            ctx\<lparr>user_frustration_level := user_frustration_level ctx + 1\<rparr>, w1)"
  using assms by (simp add: ProcessUserInput_run_def Let_def)

theorem argumentative_routing_witness:
  "ProcessUserInput_run (scripted (Inr ARGUMENTATIVE) (Inr False) (Inr (''No it isn't!'', [])))
     ((ArgumentClinicContext_init ''s'')
        \<lparr>turn_count := 3, user_frustration_level := 2, current_input := Some ''Yes it is!''\<rparr>) 0
   = (Inr ArgumentationNode,
      (ArgumentClinicContext_init ''s'')
        \<lparr>turn_count := 3, user_frustration_level := 3, current_input := Some ''Yes it is!''\<rparr>, 1)"
  using argumentative_routing
    [of "(ArgumentClinicContext_init ''s'')
           \<lparr>turn_count := 3, user_frustration_level := 2, current_input := Some ''Yes it is!''\<rparr>"
        "scripted (Inr ARGUMENTATIVE) (Inr False) (Inr (''No it isn't!'', []))" 0 1]
  by (simp add: ArgumentClinicContext_init_def infer_user_intention_def scripted_def)

section \<open>The payment gate\<close>

lemma length_responses: "length responses = 5"
  by (simp add: responses_def)

text \<open>
  Claim C3. When the Resolution node runs and its agent calls return, with
  \<open>payment_received\<close> already true or payment detected on the current input, it sets
  \<open>payment_received\<close> to true, \<open>turn_count\<close> and \<open>user_frustration_level\<close> to 0,
  \<open>last_response\<close> to the acceptance message, and returns \<open>SimpleContradictionNode\<close> as
  the next node, all in that one run.
\<close>

theorem payment_acceptance:
  assumes "infer_user_intention env (case current_input ctx of None \<Rightarrow> [] | Some u \<Rightarrow> u)
             (conversation_history ctx) w = (Inr user_intention, w1)"
    and "detect_payment env user_intention (case current_input ctx of None \<Rightarrow> [] | Some u \<Rightarrow> u) w1
           = (Inr payment_detected, w2)"
    and "payment_received ctx \<or> payment_detected"
  shows "ResolutionNode_run env ctx w =
           (Inr SimpleContradictionNode,
            ctx\<lparr>payment_received := True, last_response := acceptance,
                turn_count := 0, user_frustration_level := 0\<rparr>, w2)"
  using assms by (auto simp add: ResolutionNode_run_def resolution_branch_def)

theorem payment_acceptance_witness:
  "ResolutionNode_run clerk (state eight_turns\<lparr>current_input := Some ''Here's 5 pounds''\<rparr>) 0
   = (Inr SimpleContradictionNode,
      state eight_turns
        \<lparr>current_input := Some ''Here's 5 pounds'', payment_received := True,
         last_response := acceptance, turn_count := 0, user_frustration_level := 0\<rparr>, 2)"
  using payment_acceptance
    [of clerk "state eight_turns\<lparr>current_input := Some ''Here's 5 pounds''\<rparr>" 0
        TRANSACTIONAL 1 True 2]
  by (simp add: eight_turns_def infer_user_intention_def detect_payment_def did_user_pay_def
      clerk_def)

text \<open>
  Claim C4. When the Resolution node runs unpaid and no payment is detected, the refusal is
  the entry of the fixed list of 5 refusal texts at index (length of the conversation
  history) mod 5, the next node is \<open>WaitForInput\<close> and \<open>payment_received\<close> is still false;
  two such runs whose history lengths differ by exactly 5 give the same refusal text.
\<close>

theorem payment_refusal_rotation:
  assumes "infer_user_intention env (case current_input ctx of None \<Rightarrow> [] | Some u \<Rightarrow> u)
             (conversation_history ctx) w = (Inr user_intention, w1)"
    and "detect_payment env user_intention (case current_input ctx of None \<Rightarrow> [] | Some u \<Rightarrow> u) w1
           = (Inr False, w2)"
    and "\<not> payment_received ctx"
    and "infer_user_intention env' (case current_input ctx' of None \<Rightarrow> [] | Some u \<Rightarrow> u)
             (conversation_history ctx') w' = (Inr user_intention', w1')"
    and "detect_payment env' user_intention' (case current_input ctx' of None \<Rightarrow> [] | Some u \<Rightarrow> u) w1'
           = (Inr False, w2')"
    and "\<not> payment_received ctx'"
    and "length (conversation_history ctx') = length (conversation_history ctx) + 5"
  shows "ResolutionNode_run env ctx w =
           (Inr WaitForInput,
            ctx\<lparr>last_response := responses ! (length (conversation_history ctx) mod 5)\<rparr>, w2)
         \<and> length responses = 5
         \<and> payment_received (fst (snd (ResolutionNode_run env ctx w))) = False
         \<and> last_response (fst (snd (ResolutionNode_run env' ctx' w')))
             = last_response (fst (snd (ResolutionNode_run env ctx w)))"
  using assms by (simp add: ResolutionNode_run_def resolution_branch_def length_responses)

theorem payment_refusal_rotation_witness:
  "ResolutionNode_run clerk (state eight_turns) 0 =
     (Inr WaitForInput,
      state eight_turns
        \<lparr>last_response := ''Payment first! Five pounds, please. Then we can resume our disagreement.''\<rparr>,
      1)
   \<and> last_response (fst (snd (ResolutionNode_run clerk
        (state eight_turns\<lparr>conversation_history := replicate 13 ''Yes it is!''\<rparr>) 7)))
      = last_response (fst (snd (ResolutionNode_run clerk (state eight_turns) 0)))"
  using payment_refusal_rotation
    [of clerk "state eight_turns" 0 ARGUMENTATIVE 1 1
        clerk "state eight_turns\<lparr>conversation_history := replicate 13 ''Yes it is!''\<rparr>" 7
        ARGUMENTATIVE 8 8]
  by (simp add: eight_turns_def infer_user_intention_def detect_payment_def clerk_def
      responses_def)

section \<open>The concurrency guard\<close>

text \<open>
  Claim C6. A call of \<open>process_input\<close> on a session whose \<open>is_processing\<close> flag is set
  returns at once the fixed message with the node name \<open>ConcurrencyError\<close>, and the
  session (counters, history, payment flag, pending node) and the world are untouched.
\<close>

theorem concurrent_input_rejected:
  assumes "is_processing s"
  shows "process_input env user_input s w =
           (Inr (''Please wait for the current response to complete.'', ''ConcurrencyError''), s, w)"
  using assms by (simp add: process_input_def rejection_def)

theorem concurrent_input_rejected_witness:
  "is_processing (eight_turns\<lparr>is_processing := True\<rparr>) \<and>
   process_input clerk ''Yes it is!'' (eight_turns\<lparr>is_processing := True\<rparr>) 0 =
     (Inr (''Please wait for the current response to complete.'', ''ConcurrencyError''),
      eight_turns\<lparr>is_processing := True\<rparr>, 0)"
  using concurrent_input_rejected [of "eight_turns\<lparr>is_processing := True\<rparr>" clerk "''Yes it is!''" 0]
  by simp

section \<open>One step of a session\<close>

lemma responses_nonempty: "k < 5 \<Longrightarrow> responses ! k \<noteq> []"
  by (auto simp add: responses_def less_Suc_eq numeral_eq_Suc nth_Cons')

lemma responses_not_ding: "k < 5 \<Longrightarrow> responses ! k \<noteq> ding"
  by (auto simp add: responses_def ding_def less_Suc_eq numeral_eq_Suc nth_Cons')

lemma acceptance_not_ding: "acceptance \<noteq> ding"
  by (simp add: acceptance_def ding_def)

lemma start_graph_None:
  "graph_context s = None \<Longrightarrow>
   start_graph env s w =
     (Inr (), s\<lparr>graph_context := Some WaitForInput,
               state := (state s)\<lparr>last_response := greeting\<rparr>\<rparr>, w)"
  by (simp add: start_graph_def graph_next_def EntryNode_run_def)

lemma graph_next_WaitForInput:
  "graph_context s = Some WaitForInput \<Longrightarrow> current_input (state s) = Some u \<Longrightarrow>
   graph_next env s w =
     (Inr ProcessUserInput,
      s\<lparr>state := (state s)\<lparr>conversation_history := conversation_history (state s) @ [u]\<rparr>,
        graph_context := Some ProcessUserInput\<rparr>, w)"
  by (simp add: graph_next_def WaitForInput_run_def)

text \<open>Routing touches the frustration counter only, and routes to a response node.\<close>

lemma ProcessUserInput_run_frame:
  assumes "ProcessUserInput_run env ctx w = (r, ctx1, w1)"
  shows "(ctx1 = ctx \<or> ctx1 = ctx\<lparr>user_frustration_level := user_frustration_level ctx + 1\<rparr>)
         \<and> r \<noteq> Inr EntryNode \<and> r \<noteq> Inr WaitForInput \<and> r \<noteq> Inr ProcessUserInput"
  using assms
  by (auto simp add: ProcessUserInput_run_def Let_def
      split: prod.splits sum.splits option.splits if_splits bool.splits)

text \<open>A response node writes to the context only after its last agent call.\<close>

lemma response_node_raise:
  assumes "run_node n env ctx w = (Inl e, ctx1, w1)"
    and "n \<noteq> EntryNode" "n \<noteq> WaitForInput" "n \<noteq> ProcessUserInput"
  shows "ctx1 = ctx"
  using assms
  by (cases n)
     (auto simp add: SimpleContradictionNode_run_def ArgumentationNode_run_def
        MetaCommentaryNode_run_def respond_def ResolutionNode_run_def Let_def
        split: prod.splits sum.splits resolution_branch.splits)

lemma entered:
  assumes "graph_context s = None \<or> graph_context s = Some WaitForInput"
  shows "\<exists>s0. (if graph_context s = None then start_graph env s w else (Inr (), s, w)) = (Inr (), s0, w)
          \<and> graph_context s0 = Some WaitForInput
          \<and> is_processing s0 = is_processing s
          \<and> gs_session_id s0 = gs_session_id s
          \<and> state s0 = (state s)\<lparr>last_response :=
                (if graph_context s = None then greeting else last_response (state s))\<rparr>"
  using assms by (auto simp add: start_graph_None)

section \<open>A collaborator raises\<close>

text \<open>
  Claim C5, as stated: after a step in which a collaborator raises, the session state is
  the one from before the step. It is not: on a new session whose response generator
  raises, the step ends with the exception, and the input is in the history and the
  frustration level is 1.
\<close>

theorem raise_keeps_partial_updates:
  "fst (process_input generator_down ''Yes it is!'' (GraphSession_init ''s'') 0)
     = Inl (CollaboratorError ''model unavailable'')
   \<and> conversation_history (state (GraphSession_init ''s'')) = []
   \<and> conversation_history (state (fst (snd
        (process_input generator_down ''Yes it is!'' (GraphSession_init ''s'') 0))))
       = [''Yes it is!'']
   \<and> user_frustration_level (state (GraphSession_init ''s'')) = 0
   \<and> user_frustration_level (state (fst (snd
        (process_input generator_down ''Yes it is!'' (GraphSession_init ''s'') 0))))
       = 1"
  by code_simp

text \<open>
  Claim C5, amended. When a step of a session that is not processing and is new or waiting
  at \<open>WaitForInput\<close> ends with an exception, the flag \<open>is_processing\<close> is cleared and
  nothing is rolled back: the input has been appended to the history, the frustration
  level is the old one or the old one plus 1; \<open>turn_count\<close>, \<open>payment_received\<close> and the
  arguer's messages are as before, and \<open>last_response\<close> is as before (the greeting, when
  the step started the graph).
\<close>

theorem raise_leaves_history_and_frustration:
  assumes "\<not> is_processing s"
    and "graph_context s = None \<or> graph_context s = Some WaitForInput"
    and "process_input env user_input s w = (Inl e, s1, w1)"
  shows "\<not> is_processing s1
     \<and> conversation_history (state s1) = conversation_history (state s) @ [user_input]
     \<and> (user_frustration_level (state s1) = user_frustration_level (state s)
          \<or> user_frustration_level (state s1) = user_frustration_level (state s) + 1)
     \<and> turn_count (state s1) = turn_count (state s)
     \<and> payment_received (state s1) = payment_received (state s)
     \<and> arguer_messages (state s1) = arguer_messages (state s)
     \<and> last_response (state s1)
          = (if graph_context s = None then greeting else last_response (state s))"
proof -
  let ?s = "s\<lparr>is_processing := True\<rparr>"
  from assms(2) have "graph_context ?s = None \<or> graph_context ?s = Some WaitForInput" by simp
  from entered [OF this, of env w] obtain s0 where
    ent: "(if graph_context ?s = None then start_graph env ?s w else (Inr (), ?s, w)) = (Inr (), s0, w)"
    and g0: "graph_context s0 = Some WaitForInput"
    and st0: "state s0 = (state s)\<lparr>last_response :=
                (if graph_context s = None then greeting else last_response (state s))\<rparr>"
    by auto
  let ?sa = "s0\<lparr>state := (state s0)\<lparr>current_input := Some user_input\<rparr>\<rparr>"
  let ?sb = "?sa\<lparr>state := (state ?sa)\<lparr>conversation_history :=
                conversation_history (state ?sa) @ [user_input]\<rparr>,
              graph_context := Some ProcessUserInput\<rparr>"
  have n1: "graph_next env ?sa w = (Inr ProcessUserInput, ?sb, w)"
    by (rule graph_next_WaitForInput) (simp_all add: g0)
  obtain r2 c2 w2 where run2: "ProcessUserInput_run env (state ?sb) w = (r2, c2, w2)"
    by (metis prod_cases3)
  from ProcessUserInput_run_frame [OF run2]
  have c2: "c2 = state ?sb \<or> c2 = (state ?sb)\<lparr>user_frustration_level :=
              user_frustration_level (state ?sb) + 1\<rparr>"
    and r2: "r2 \<noteq> Inr EntryNode" "r2 \<noteq> Inr WaitForInput" "r2 \<noteq> Inr ProcessUserInput"
    by auto
  have kept: "conversation_history c2 = conversation_history (state s) @ [user_input]
     \<and> (user_frustration_level c2 = user_frustration_level (state s)
          \<or> user_frustration_level c2 = user_frustration_level (state s) + 1)
     \<and> turn_count c2 = turn_count (state s)
     \<and> payment_received c2 = payment_received (state s)
     \<and> arguer_messages c2 = arguer_messages (state s)
     \<and> last_response c2
          = (if graph_context s = None then greeting else last_response (state s))"
    using c2 by (auto simp add: st0)
  show ?thesis
  proof (cases r2)
    case (Inl e2)
    have "graph_next env ?sb w = (Inl e2, ?sb\<lparr>state := c2\<rparr>, w2)"
      using run2 Inl by (simp add: graph_next_def)
    then have "process_input_body env user_input ?s w = (Inl e2, ?sb\<lparr>state := c2\<rparr>, w2)"
      using ent n1 by (simp add: process_input_body_def)
    then have "s1 = ?sb\<lparr>state := c2, is_processing := False\<rparr>"
      using assms(1,3) by (simp add: process_input_def)
    then show ?thesis using kept by simp
  next
    case (Inr n2)
    let ?sc = "?sb\<lparr>state := c2, graph_context := Some n2\<rparr>"
    have n2: "graph_next env ?sb w = (Inr n2, ?sc, w2)"
      using run2 Inr by (simp add: graph_next_def)
    obtain r3 c3 w3 where run3: "run_node n2 env c2 w2 = (r3, c3, w3)"
      by (metis prod_cases3)
    show ?thesis
    proof (cases r3)
      case (Inl e3)
      from response_node_raise [OF run3 [unfolded Inl]] r2 Inr have "c3 = c2" by auto
      moreover have "graph_next env ?sc w2 = (Inl e3, ?sc\<lparr>state := c3\<rparr>, w3)"
        using run3 Inl by (simp add: graph_next_def)
      then have "process_input_body env user_input ?s w = (Inl e3, ?sc\<lparr>state := c3\<rparr>, w3)"
        using ent n1 n2 by (simp add: process_input_body_def)
      then have "s1 = ?sc\<lparr>state := c3, is_processing := False\<rparr>"
        using assms(1,3) by (simp add: process_input_def)
      ultimately show ?thesis using kept by simp
    next
      case (Inr n3)
      have "graph_next env ?sc w2 = (Inr n3, ?sc\<lparr>state := c3, graph_context := Some n3\<rparr>, w3)"
        using run3 Inr by (simp add: graph_next_def)
      then have "fst (process_input_body env user_input ?s w) \<noteq> Inl e"
        using ent n1 n2 by (simp add: process_input_body_def)
      then have False
        using assms(1,3) by (auto simp add: process_input_def split: prod.splits)
      then show ?thesis ..
    qed
  qed
qed

theorem raise_leaves_history_and_frustration_witness:
  "\<not> is_processing (GraphSession_init ''s'')
   \<and> graph_context (GraphSession_init ''s'') = None
   \<and> fst (process_input generator_down ''Yes it is!'' (GraphSession_init ''s'') 0)
        = Inl (CollaboratorError ''model unavailable'')
   \<and> turn_count (state (fst (snd
        (process_input generator_down ''Yes it is!'' (GraphSession_init ''s'') 0)))) = 0
   \<and> last_response (state (fst (snd
        (process_input generator_down ''Yes it is!'' (GraphSession_init ''s'') 0)))) = greeting"
proof -
  have run: "process_input generator_down ''Yes it is!'' (GraphSession_init ''s'') 0
      = (Inl (CollaboratorError ''model unavailable''),
         fst (snd (process_input generator_down ''Yes it is!'' (GraphSession_init ''s'') 0)),
         snd (snd (process_input generator_down ''Yes it is!'' (GraphSession_init ''s'') 0)))"
    by code_simp
  have new: "\<not> is_processing (GraphSession_init ''s'')"
    "graph_context (GraphSession_init ''s'') = None"
    by (simp_all add: GraphSession_init_def)
  have raised: "fst (process_input generator_down ''Yes it is!'' (GraphSession_init ''s'') 0)
        = Inl (CollaboratorError ''model unavailable'')"
    by code_simp
  have before: "turn_count (state (GraphSession_init ''s'')) = 0"
    by (simp add: GraphSession_init_def ArgumentClinicContext_init_def)
  from raise_leaves_history_and_frustration [OF new(1) disjI1 [OF new(2)] run] new raised before
  show ?thesis
    by simp
qed

section \<open>The pending node after a step\<close>

text \<open>
  A response node returns \<open>WaitForInput\<close>, except the Resolution node when it accepts
  payment.
\<close>

lemma response_node_next:
  assumes "run_node n env ctx w = (Inr n1, ctx1, w1)"
    and "n \<noteq> EntryNode" "n \<noteq> WaitForInput" "n \<noteq> ProcessUserInput"
  shows "n1 = WaitForInput
         \<or> (n = ResolutionNode \<and> n1 = SimpleContradictionNode \<and> payment_received ctx1)"
  using assms
  by (cases n)
     (auto simp add: SimpleContradictionNode_run_def ArgumentationNode_run_def
        MetaCommentaryNode_run_def respond_def ResolutionNode_run_def Let_def
        split: prod.splits sum.splits resolution_branch.splits)

text \<open>
  So a step that starts on a new session or at \<open>WaitForInput\<close> and returns leaves
  \<open>WaitForInput\<close> pending, unless it went through the Resolution node and payment was
  accepted: then \<open>SimpleContradictionNode\<close> is pending.
\<close>

lemma step_pending_node:
  assumes "\<not> is_processing s"
    and "graph_context s = None \<or> graph_context s = Some WaitForInput"
    and "process_input env user_input s w = (Inr out, s1, w1)"
  shows "graph_context s1 = Some WaitForInput
         \<or> (graph_context s1 = Some SimpleContradictionNode
             \<and> snd out = ''ResolutionNode'' \<and> payment_received (state s1))"
proof -
  let ?s = "s\<lparr>is_processing := True\<rparr>"
  from assms(2) have "graph_context ?s = None \<or> graph_context ?s = Some WaitForInput" by simp
  from entered [OF this, of env w] obtain s0 where
    ent: "(if graph_context ?s = None then start_graph env ?s w else (Inr (), ?s, w)) = (Inr (), s0, w)"
    and g0: "graph_context s0 = Some WaitForInput"
    by auto
  let ?sa = "s0\<lparr>state := (state s0)\<lparr>current_input := Some user_input\<rparr>\<rparr>"
  let ?sb = "?sa\<lparr>state := (state ?sa)\<lparr>conversation_history :=
                conversation_history (state ?sa) @ [user_input]\<rparr>,
              graph_context := Some ProcessUserInput\<rparr>"
  have n1: "graph_next env ?sa w = (Inr ProcessUserInput, ?sb, w)"
    by (rule graph_next_WaitForInput) (simp_all add: g0)
  obtain r2 c2 w2 where run2: "ProcessUserInput_run env (state ?sb) w = (r2, c2, w2)"
    by (metis prod_cases3)
  from ProcessUserInput_run_frame [OF run2]
  have r2: "r2 \<noteq> Inr EntryNode" "r2 \<noteq> Inr WaitForInput" "r2 \<noteq> Inr ProcessUserInput"
    by auto
  show ?thesis
  proof (cases r2)
    case (Inl e2)
    have "graph_next env ?sb w = (Inl e2, ?sb\<lparr>state := c2\<rparr>, w2)"
      using run2 Inl by (simp add: graph_next_def)
    then have "fst (process_input_body env user_input ?s w) = Inl e2"
      using ent n1 by (simp add: process_input_body_def)
    then have False
      using assms(1,3) by (auto simp add: process_input_def split: prod.splits)
    then show ?thesis ..
  next
    case (Inr n2)
    let ?sc = "?sb\<lparr>state := c2, graph_context := Some n2\<rparr>"
    have n2: "graph_next env ?sb w = (Inr n2, ?sc, w2)"
      using run2 Inr by (simp add: graph_next_def)
    obtain r3 c3 w3 where run3: "run_node n2 env c2 w2 = (r3, c3, w3)"
      by (metis prod_cases3)
    show ?thesis
    proof (cases r3)
      case (Inl e3)
      have "graph_next env ?sc w2 = (Inl e3, ?sc\<lparr>state := c3\<rparr>, w3)"
        using run3 Inl by (simp add: graph_next_def)
      then have "fst (process_input_body env user_input ?s w) = Inl e3"
        using ent n1 n2 by (simp add: process_input_body_def)
      then have False
        using assms(1,3) by (auto simp add: process_input_def split: prod.splits)
      then show ?thesis ..
    next
      case (Inr n3)
      let ?sd = "?sc\<lparr>state := c3, graph_context := Some n3\<rparr>"
      from response_node_next [OF run3 [unfolded Inr]] r2 \<open>r2 = Inr n2\<close>
      have next3: "n3 = WaitForInput
          \<or> (n2 = ResolutionNode \<and> n3 = SimpleContradictionNode \<and> payment_received c3)"
        by auto
      have "graph_next env ?sc w2 = (Inr n3, ?sd, w3)"
        using run3 Inr by (simp add: graph_next_def)
      then have "process_input_body env user_input ?s w =
          (Inr (if last_response c3 = [] then ''Good morning! Welcome to the Argument Clinic.''
                else last_response c3, node_name n2), ?sd, w3)"
        using ent n1 n2 by (simp add: process_input_body_def)
      then have "s1 = ?sd\<lparr>is_processing := False\<rparr> \<and> snd out = node_name n2"
        using assms(1,3) by (auto simp add: process_input_def)
      then show ?thesis using next3 by auto
    qed
  qed
qed

text \<open>
  Claim C7 asks that every step that is not rejected leaves \<open>WaitForInput\<close> pending, also
  the step that accepts payment, as the comments in \<open>process_input\<close> say. The step that
  accepts payment does not: the session that has answered eight inputs gets the paying
  input, the step returns the acceptance text from \<open>ResolutionNode\<close>, and the node left
  pending is \<open>SimpleContradictionNode\<close>; the step for the input after that then reports
  \<open>ProcessUserInput\<close> as its response node.
\<close>

theorem payment_step_leaves_SimpleContradictionNode_pending:
  "fst (process_input clerk ''Here's 5 pounds'' eight_turns 24)
     = Inr (acceptance, ''ResolutionNode'')
   \<and> graph_context (fst (snd (process_input clerk ''Here's 5 pounds'' eight_turns 24)))
       = Some SimpleContradictionNode
   \<and> fst (process_input clerk ''Yes it is!''
            (fst (snd (process_input clerk ''Here's 5 pounds'' eight_turns 24))) 27)
       = Inr (''No it isn't!'', ''ProcessUserInput'')"
  by code_simp

section \<open>The refusal after eight turns\<close>

text \<open>
  Claim C8, as stated: with \<open>turn_count\<close> 8 at routing time the refusal is the entry at
  index 3 = 8 mod 5. On the session that has answered eight inputs the ninth input is
  routed to Resolution with \<open>turn_count\<close> 8, and the refusal is the entry at index 4: the
  index is taken from the history, which holds nine inputs by then.
\<close>

theorem refusal_after_eight_turns_is_entry_4:
  "turn_count (state eight_turns) = 8
   \<and> \<not> payment_received (state eight_turns)
   \<and> fst (process_input clerk ''Yes it is!'' eight_turns 24)
       = Inr (responses ! 4, ''ResolutionNode'')
   \<and> responses ! 4 \<noteq> responses ! (8 mod 5)"
  by code_simp

text \<open>
  Claim C8, amended. For a session waiting at \<open>WaitForInput\<close> with \<open>turn_count\<close> 8 and
  unpaid, when the classifier answers both calls and no payment is detected, the step is
  routed to \<open>ResolutionNode\<close> and the refusal is the entry of the refusal list at index
  (length of the history with the current input appended) mod 5; the session then waits at
  \<open>WaitForInput\<close> again with the counters and the payment flag as before.
\<close>

theorem refusal_index_is_history_length:
  assumes "\<not> is_processing s"
    and "graph_context s = Some WaitForInput"
    and "turn_count (state s) = 8"
    and "\<not> payment_received (state s)"
    and "infer_user_intention env user_input (conversation_history (state s) @ [user_input]) w
           = (Inr i1, w1)"
    and "infer_user_intention env user_input (conversation_history (state s) @ [user_input]) w1
           = (Inr i2, w2)"
    and "detect_payment env i2 user_input w2 = (Inr False, w3)"
  shows "process_input env user_input s w =
           (Inr (responses ! ((length (conversation_history (state s)) + 1) mod 5), ''ResolutionNode''),
            s\<lparr>state := (state s)
                 \<lparr>current_input := Some user_input,
                  conversation_history := conversation_history (state s) @ [user_input],
                  last_response :=
                    responses ! ((length (conversation_history (state s)) + 1) mod 5)\<rparr>\<rparr>,
            w3)"
proof -
  let ?k = "(length (conversation_history (state s)) + 1) mod 5"
  let ?s = "s\<lparr>is_processing := True\<rparr>"
  let ?sa = "?s\<lparr>state := (state ?s)\<lparr>current_input := Some user_input\<rparr>\<rparr>"
  let ?sb = "?sa\<lparr>state := (state ?sa)\<lparr>conversation_history :=
                conversation_history (state ?sa) @ [user_input]\<rparr>,
              graph_context := Some ProcessUserInput\<rparr>"
  let ?sc = "?sb\<lparr>graph_context := Some ResolutionNode\<rparr>"
  let ?sd = "?sc\<lparr>state := (state ?sc)\<lparr>last_response := responses ! ?k\<rparr>,
               graph_context := Some WaitForInput\<rparr>"
  have n1: "graph_next env ?sa w = (Inr ProcessUserInput, ?sb, w)"
    by (rule graph_next_WaitForInput) (simp_all add: assms(2))
  have "ProcessUserInput_run env (state ?sb) w = (Inr ResolutionNode, state ?sb, w1)"
    using assms(3,5) by (simp add: ProcessUserInput_run_def)
  then have n2: "graph_next env ?sb w = (Inr ResolutionNode, ?sc, w1)"
    by (simp add: graph_next_def)
  have "ResolutionNode_run env (state ?sc) w1 =
          (Inr WaitForInput, (state ?sc)\<lparr>last_response := responses ! ?k\<rparr>, w3)"
    using assms(4,6,7)
    by (simp add: ResolutionNode_run_def resolution_branch_def length_responses)
  then have n3: "graph_next env ?sc w1 = (Inr WaitForInput, ?sd, w3)"
    by (simp add: graph_next_def)
  have ne: "responses ! ?k \<noteq> []"
    by (rule responses_nonempty) simp
  have "process_input_body env user_input ?s w = (Inr (responses ! ?k, ''ResolutionNode''), ?sd, w3)"
    using n1 n2 n3 ne assms(2) by (simp add: process_input_body_def)
  then show ?thesis
    using assms(1,2) by (simp add: process_input_def)
qed

theorem refusal_index_is_history_length_witness:
  "turn_count (state eight_turns) = 8
   \<and> length (conversation_history (state eight_turns)) = 8
   \<and> fst (process_input clerk ''Yes it is!'' eight_turns 24)
       = Inr (''I won't argue with you until you've paid! Five pounds!'', ''ResolutionNode'')"
  using refusal_index_is_history_length
    [of eight_turns clerk "''Yes it is!''" 24 ARGUMENTATIVE 25 ARGUMENTATIVE 26 26]
  by (simp add: eight_turns_def clerk_def infer_user_intention_def detect_payment_def
      responses_def)

section \<open>The payment flag\<close>

lemma respond_payment:
  "payment_received (fst (snd (respond t env ctx w))) = payment_received ctx"
  by (simp add: respond_def Let_def split: prod.splits sum.splits)

lemma run_node_payment:
  "payment_received ctx \<Longrightarrow> payment_received (fst (snd (run_node n env ctx w)))"
  by (cases n)
     (auto simp add: EntryNode_run_def WaitForInput_run_def ProcessUserInput_run_def Let_def
        SimpleContradictionNode_run_def ArgumentationNode_run_def MetaCommentaryNode_run_def
        respond_payment ResolutionNode_run_def
        split: prod.splits sum.splits option.splits bool.splits resolution_branch.splits)

lemma run_node_paymentD:
  "run_node n env ctx w = (r, ctx1, w1) \<Longrightarrow> payment_received ctx \<Longrightarrow> payment_received ctx1"
  using run_node_payment [of ctx n env w] by simp

lemma graph_next_payment:
  "graph_next env s w = (r, s1, w1) \<Longrightarrow> payment_received (state s)
   \<Longrightarrow> payment_received (state s1)"
  by (auto simp add: graph_next_def split: option.splits prod.splits sum.splits
      dest: run_node_paymentD)

lemma start_graph_payment:
  "start_graph env s w = (r, s1, w1) \<Longrightarrow> payment_received (state s)
   \<Longrightarrow> payment_received (state s1)"
  by (auto simp add: start_graph_def split: prod.splits sum.splits if_splits
      dest: graph_next_payment)

lemma process_input_body_payment:
  assumes "process_input_body env u s w = (r, s1, w1)" and "payment_received (state s)"
  shows "payment_received (state s1)"
proof -
  obtain r0 s0 w0 where
    st: "(if graph_context s = None then start_graph env s w else (Inr (), s, w)) = (r0, s0, w0)"
    by (metis prod_cases3)
  have p0: "payment_received (state s0)"
    using st assms(2) by (auto split: if_splits dest: start_graph_payment)
  let ?s0 = "s0\<lparr>state := (state s0)\<lparr>current_input := Some u\<rparr>\<rparr>"
  have p0': "payment_received (state ?s0)" using p0 by simp
  show ?thesis
    using assms(1) st p0 graph_next_payment [of env ?s0 w0, OF _ p0']
    by (auto simp add: process_input_body_def split: sum.splits prod.splits
        dest!: graph_next_payment)
qed

lemma process_input_payment:
  "process_input env u s w = (r, s1, w1) \<Longrightarrow> payment_received (state s)
   \<Longrightarrow> payment_received (state s1)"
  by (auto simp add: process_input_def split: if_splits prod.splits
      dest!: process_input_body_payment)

text \<open>
  Claim C9. \<open>payment_received\<close> is false in a newly created session, and once it is true
  it is still true after any sequence of inputs processed on the session, whatever the
  collaborators answer and whether the steps return, raise or are rejected.
\<close>

theorem payment_received_monotone:
  "payment_received (state (GraphSession_init sid)) = False
   \<and> (payment_received (state s) \<longrightarrow>
        payment_received (state (fst (process_inputs env us s w))))"
proof
  show "payment_received (state (GraphSession_init sid)) = False"
    by (simp add: GraphSession_init_def ArgumentClinicContext_init_def)
  have "payment_received (state s) \<Longrightarrow> payment_received (state (fst (process_inputs env us s w)))"
  proof (induction us arbitrary: s w)
    case Nil
    then show ?case by simp
  next
    case (Cons u us)
    obtain r s1 w1 where step: "process_input env u s w = (r, s1, w1)"
      by (metis prod_cases3)
    from process_input_payment [OF step Cons.prems] have "payment_received (state s1)" .
    from Cons.IH [OF this] show ?case
      by (simp add: step)
  qed
  then show "payment_received (state s) \<longrightarrow>
        payment_received (state (fst (process_inputs env us s w)))" by blast
qed

theorem payment_received_monotone_witness:
  "payment_received (state paid_session)
   \<and> payment_received (state (fst (process_inputs generator_down
        [''Yes it is!'', ''I'm not paying again'', ''Yes it is!''] paid_session 0)))"
  using payment_received_monotone
    [of "''s''" paid_session generator_down
        "[''Yes it is!'', ''I'm not paying again'', ''Yes it is!'']" 0]
  by (simp add: paid_session_def)

section \<open>The branches of the Resolution node\<close>

text \<open>
  Claim C10. For every value of \<open>payment_received\<close> and \<open>payment_detected\<close> the Resolution
  node takes the refusal branch (both false) or the acceptance branch (one of them true);
  the trailing fallback branch is never taken, and a run of the node never stores the
  \<open>*DING!*\<close> message.
\<close>

theorem resolution_fallback_unreachable:
  "resolution_branch paid payment_detected \<noteq> Fallback
   \<and> (resolution_branch paid payment_detected = Refuse) = (\<not> paid \<and> \<not> payment_detected)
   \<and> (resolution_branch paid payment_detected = Accept) = (paid \<or> payment_detected)
   \<and> (last_response ctx \<noteq> ding \<longrightarrow>
        last_response (fst (snd (ResolutionNode_run env ctx w))) \<noteq> ding)"
proof -
  have "last_response (fst (snd (ResolutionNode_run env ctx w))) \<noteq> ding"
    if "last_response ctx \<noteq> ding"
    using that
    by (simp add: ResolutionNode_run_def resolution_branch_def Let_def length_responses
        responses_not_ding acceptance_not_ding split: prod.splits sum.splits)
  then show ?thesis
    by (simp add: resolution_branch_def)
qed

theorem resolution_fallback_unreachable_witness:
  "last_response (state eight_turns) \<noteq> ding
   \<and> resolution_branch False True = Accept
   \<and> last_response (fst (snd (ResolutionNode_run clerk (state eight_turns) 0))) \<noteq> ding"
  using resolution_fallback_unreachable [of False True "state eight_turns" clerk 0]
  by (simp add: eight_turns_def ding_def)

end
